theory Spec2Isabelle
  imports Main
begin

section \<open>The task manager of \<open>backend/app.py\<close>\<close>

text \<open>
  The program is a Flask application over a PostgreSQL database reached through
  SQLAlchemy. Each route is one function that runs one or two queries. The model keeps
  the two tables as row lists in insertion order, together with the two sequences that
  hand out primary keys, and makes every handler a function from the database state to
  the new state and the outcome of the request.

  The constraints that the model classes declare are part of the model: the primary
  keys, \<open>unique=True\<close> on \<open>User.username\<close>, the lengths of the \<open>String(n)\<close> columns and
  the foreign key of \<open>Task.user_id\<close>. So are two facts of the libraries between the
  program and the database: the driver refuses text with the character NUL, and a query
  needs the application context of Flask. Text values are \<open>string\<close>s of characters; JSON
  \<open>null\<close> and non-text values of the request fields are outside the model.
  The identity of the caller is the integer that \<open>get_jwt_identity()\<close> yields after
  \<open>@jwt_required()\<close> has accepted the token.
\<close>

subsection \<open>Errors and responses\<close>

text \<open>
  \<open>IntegrityError\<close> and \<open>DataError\<close> (from the database), \<open>ValueError\<close> (from
  \<open>datetime.strptime\<close> and from the database driver) and \<open>RuntimeError\<close> (from
  Flask-SQLAlchemy) are exceptions that nothing in the program catches. \<open>NotFound\<close> and
  \<open>InvalidCredentials\<close> are the 404 and 401 responses that the handlers return.
\<close>

datatype violation = UniqueViolation | ForeignKeyViolation

datatype error =
    IntegrityError violation
  | DataError
  | ValueError
  | RuntimeError
  | NotFound
  | InvalidCredentials

subsection \<open>Dates\<close>

record date =
  year :: nat
  month :: nat
  day :: nat

definition date_lt :: "date \<Rightarrow> date \<Rightarrow> bool" where
  "date_lt a b \<longleftrightarrow>
     year a < year b \<or>
     (year a = year b \<and> (month a < month b \<or> (month a = month b \<and> day a < day b)))"

definition is_leap :: "nat \<Rightarrow> bool" where
  "is_leap y \<longleftrightarrow> y mod 4 = 0 \<and> (y mod 100 \<noteq> 0 \<or> y mod 400 = 0)"

definition days_in_month :: "nat \<Rightarrow> nat \<Rightarrow> nat" where
  "days_in_month y m =
     (if m = 2 then (if is_leap y then 29 else 28)
      else if m = 4 \<or> m = 6 \<or> m = 9 \<or> m = 11 then 30
      else 31)"

text \<open>The constructor of \<open>datetime.date\<close>: it raises \<open>ValueError\<close> outside the calendar.\<close>

definition datetime_date :: "nat \<Rightarrow> nat \<Rightarrow> nat \<Rightarrow> error + date" where
  "datetime_date y m d =
     (if 1 \<le> y \<and> y \<le> 9999 \<and> 1 \<le> m \<and> m \<le> 12 \<and> 1 \<le> d \<and> d \<le> days_in_month y m
      then Inr \<lparr>year = y, month = m, day = d\<rparr>
      else Inl ValueError)"

subsection \<open>Decimal text\<close>

definition digit_chars :: string where
  "digit_chars = ''0123456789''"

definition is_digit :: "char \<Rightarrow> bool" where
  "is_digit c \<longleftrightarrow> c \<in> set digit_chars"

definition digit_value :: "char \<Rightarrow> nat" where
  "digit_value c = of_char c - 48"

text \<open>\<open>int(s)\<close> on the text of a regex group: leading blanks are skipped.\<close>

definition py_int :: "string \<Rightarrow> nat" where
  "py_int s = foldl (\<lambda>a c. 10 * a + digit_value c) 0 (dropWhile (\<lambda>c. c = CHR '' '') s)"

fun str_nat :: "nat \<Rightarrow> string" where
  "str_nat n =
     (if n < 10 then [digit_chars ! n]
      else str_nat (n div 10) @ [digit_chars ! (n mod 10)])"

declare str_nat.simps [simp del]

definition str :: "int \<Rightarrow> string" where
  "str i = (if i < 0 then CHR ''-'' # str_nat (nat (- i)) else str_nat (nat i))"

definition zfill :: "nat \<Rightarrow> string \<Rightarrow> string" where
  "zfill w s = replicate (w - length s) CHR ''0'' @ s"

text \<open>\<open>date.isoformat()\<close>, that is \<open>"%04d-%02d-%02d"\<close>.\<close>

definition isoformat :: "date \<Rightarrow> string" where
  "isoformat d =
     zfill 4 (str_nat (year d)) @ ''-'' @ zfill 2 (str_nat (month d)) @ ''-'' @
     zfill 2 (str_nat (day d))"

subsection \<open>\<open>datetime.strptime(s, "%Y-%m-%d")\<close>\<close>

text \<open>
  The library turns the format into the regular expression
  \<^verbatim>\<open>(?P<Y>\d\d\d\d)-(?P<m>1[0-2]|0[1-9]|[1-9])-(?P<d>3[0-1]|[1-2]\d|0[1-9]|[1-9]| [1-9])\<close>,
  matches it at the start of the text, raises \<open>ValueError\<close> when there is no match or
  when text remains after the match, and builds the date from the three groups, which
  raises \<open>ValueError\<close> for a day that the month does not have and for the year 0.
  A matcher returns its matches in the order in which a backtracking engine finds them:
  each is the matched text with the rest of the input. Digits are the ASCII digits.
\<close>

type_synonym matcher = "string \<Rightarrow> (string \<times> string) list"

definition re_class :: "(char \<Rightarrow> bool) \<Rightarrow> matcher" where
  "re_class P s = (case s of [] \<Rightarrow> [] | c # r \<Rightarrow> if P c then [([c], r)] else [])"

definition re_seq :: "matcher \<Rightarrow> matcher \<Rightarrow> matcher" where
  "re_seq p q s = concat (map (\<lambda>(a, r). map (\<lambda>(b, r'). (a @ b, r')) (q r)) (p s))"

definition re_alt :: "matcher list \<Rightarrow> matcher" where
  "re_alt ps s = concat (map (\<lambda>p. p s) ps)"

definition in_range :: "char \<Rightarrow> char \<Rightarrow> char \<Rightarrow> bool" where
  "in_range lo hi c \<longleftrightarrow> (of_char lo :: nat) \<le> of_char c \<and> (of_char c :: nat) \<le> of_char hi"

definition re_lit :: "char \<Rightarrow> matcher" where
  "re_lit x = re_class (\<lambda>c. c = x)"

definition re_Y :: matcher where
  "re_Y = re_seq (re_class is_digit) (re_seq (re_class is_digit)
            (re_seq (re_class is_digit) (re_class is_digit)))"

definition re_m :: matcher where
  "re_m = re_alt
     [re_seq (re_lit CHR ''1'') (re_class (in_range CHR ''0'' CHR ''2'')),
      re_seq (re_lit CHR ''0'') (re_class (in_range CHR ''1'' CHR ''9'')),
      re_class (in_range CHR ''1'' CHR ''9'')]"

definition re_d :: matcher where
  "re_d = re_alt
     [re_seq (re_lit CHR ''3'') (re_class (in_range CHR ''0'' CHR ''1'')),
      re_seq (re_class (in_range CHR ''1'' CHR ''2'')) (re_class is_digit),
      re_seq (re_lit CHR ''0'') (re_class (in_range CHR ''1'' CHR ''9'')),
      re_class (in_range CHR ''1'' CHR ''9''),
      re_seq (re_lit CHR '' '') (re_class (in_range CHR ''1'' CHR ''9''))]"

text \<open>The matches of the whole expression: the three groups and the unmatched rest.\<close>

definition format_regex :: "string \<Rightarrow> ((string \<times> string \<times> string) \<times> string) list" where
  "format_regex s =
     concat (map (\<lambda>(y, r1).
       concat (map (\<lambda>(h1, r2).
         concat (map (\<lambda>(m, r3).
           concat (map (\<lambda>(h2, r4).
             map (\<lambda>(d, r5). ((y, m, d), r5)) (re_d r4))
           (re_lit CHR ''-'' r3)))
         (re_m r2)))
       (re_lit CHR ''-'' r1)))
     (re_Y s))"

definition strptime :: "string \<Rightarrow> error + date" where
  "strptime data_string =
     (case format_regex data_string of
        [] \<Rightarrow> Inl ValueError
      | ((y, m, d), rest) # _ \<Rightarrow>
          if rest \<noteq> [] then Inl ValueError
          else datetime_date (py_int y) (py_int m) (py_int d))"

subsection \<open>The texts that \<open>strptime\<close> accepts, and the form \<open>YYYY-MM-DD\<close>\<close>

text \<open>
  The three fields of an accepted text, described without the matcher: a year of four
  digits; a month \<open>1\<close> to \<open>12\<close>, one digit or two; a day \<open>1\<close> to \<open>31\<close>, one digit or two, or
  one digit after a blank.
\<close>

definition year_text :: "string \<Rightarrow> bool" where
  "year_text y \<longleftrightarrow> length y = 4 \<and> list_all is_digit y"

definition month_text :: "string \<Rightarrow> bool" where
  "month_text m \<longleftrightarrow>
     (case m of
        [c] \<Rightarrow> in_range CHR ''1'' CHR ''9'' c
      | [a, c] \<Rightarrow> a = CHR ''0'' \<and> in_range CHR ''1'' CHR ''9'' c \<or>
                  a = CHR ''1'' \<and> in_range CHR ''0'' CHR ''2'' c
      | _ \<Rightarrow> False)"

definition day_text :: "string \<Rightarrow> bool" where
  "day_text d \<longleftrightarrow>
     (case d of
        [c] \<Rightarrow> in_range CHR ''1'' CHR ''9'' c
      | [a, c] \<Rightarrow> (a = CHR ''0'' \<or> a = CHR '' '') \<and> in_range CHR ''1'' CHR ''9'' c \<or>
                  in_range CHR ''1'' CHR ''2'' a \<and> is_digit c \<or>
                  a = CHR ''3'' \<and> in_range CHR ''0'' CHR ''1'' c
      | _ \<Rightarrow> False)"

text \<open>
  The specification's words, for comparison with \<open>strptime\<close>: a calendar date in the form
  \<open>YYYY-MM-DD\<close> is four digits, a hyphen, two digits, a hyphen and two digits that name
  a date of the calendar.
\<close>

definition spec_yyyy_mm_dd :: "string \<Rightarrow> bool" where
  "spec_yyyy_mm_dd s \<longleftrightarrow>
     length s = 10 \<and>
     list_all is_digit (take 4 s) \<and> s ! 4 = CHR ''-'' \<and>
     list_all is_digit (take 2 (drop 5 s)) \<and> s ! 7 = CHR ''-'' \<and>
     list_all is_digit (drop 8 s) \<and>
     datetime_date (py_int (take 4 s)) (py_int (take 2 (drop 5 s))) (py_int (drop 8 s))
       \<noteq> Inl ValueError"

subsection \<open>The tables\<close>

record user =
  id_user :: int
  username :: string
  password :: string

record task =
  id_task :: int
  title :: string
  status :: string
  priority :: string
  due_date :: date
  user_id :: int

text \<open>
  \<open>user_id_seq\<close> and \<open>task_id_seq\<close> are the sequences behind the two \<open>id\<close> columns. A
  value taken from a sequence is not given back when the statement fails afterwards.
\<close>

record database =
  user_table :: "user list"
  task_table :: "task list"
  user_id_seq :: int
  task_id_seq :: int

text \<open>\<open>db.create_all()\<close> on an empty database.\<close>

definition init_db :: database where
  "init_db = \<lparr>user_table = [], task_table = [], user_id_seq = 1, task_id_seq = 1\<rparr>"

text \<open>
  The driver, psycopg2, writes every text parameter of a statement into the statement
  before it sends it, and raises \<open>ValueError\<close> for a text that contains the character NUL,
  which a text of PostgreSQL cannot hold. Nothing has reached the database then.
\<close>

definition has_nul :: "string \<Rightarrow> bool" where
  "has_nul s \<longleftrightarrow> CHR 0x00 \<in> set s"

text \<open>
  Storing text in a \<open>String(n)\<close> column, a \<open>VARCHAR(n)\<close> of PostgreSQL: a longer value is
  refused, unless all that exceeds \<open>n\<close> characters is blanks, which are cut off. The text
  has passed the driver, so it is without NUL.
\<close>

definition varchar :: "nat \<Rightarrow> string \<Rightarrow> error + string" where
  "varchar n s =
     (if length s \<le> n then Inr s
      else if list_all (\<lambda>c. c = CHR '' '') (drop n s) then Inr (take n s)
      else Inl DataError)"

subsection \<open>Responses\<close>

record task_json =
  tj_id :: int
  tj_title :: string
  tj_status :: string
  tj_priority :: string
  tj_due_date :: string

record stats_json =
  completed :: int
  pending :: int
  Low :: int
  Medium :: int
  High :: int

record reminders_json =
  overdue :: "string list"
  today :: "string list"

datatype response =
    Message string
  | AccessToken string
  | TaskList "task_json list"
  | StatsResponse stats_json
  | RemindersResponse reminders_json
  | Printed "string list"

subsection \<open>Registration and login\<close>

text \<open>
  The two functions of \<open>werkzeug.security\<close> are arguments of the model.
  \<open>generate_password_hash\<close> draws a random salt; the salt is an argument as well.
\<close>

record security =
  generate_password_hash :: "string \<Rightarrow> string \<Rightarrow> string"
  check_password_hash :: "string \<Rightarrow> string \<Rightarrow> bool"

definition register ::
  "security \<Rightarrow> string \<Rightarrow> database \<Rightarrow> string \<Rightarrow> string \<Rightarrow> database \<times> (error + response)" where
  "register sec salt db uname pw =
     (if has_nul uname \<or> has_nul (generate_password_hash sec salt pw)
      then (db, Inl ValueError)
      else
       (case varchar 80 uname of
          Inl e \<Rightarrow> (db, Inl e)
        | Inr u \<Rightarrow>
            (case varchar 200 (generate_password_hash sec salt pw) of
               Inl e \<Rightarrow> (db, Inl e)
             | Inr h \<Rightarrow>
                 if u \<in> set (map username (user_table db))
                 then (db\<lparr>user_id_seq := user_id_seq db + 1\<rparr>,
                       Inl (IntegrityError UniqueViolation))
                 else (db\<lparr>user_table := user_table db @
                             [\<lparr>id_user = user_id_seq db, username = u, password = h\<rparr>],
                           user_id_seq := user_id_seq db + 1\<rparr>,
                       Inr (Message ''User registered'')))))"

definition login :: "security \<Rightarrow> database \<Rightarrow> string \<Rightarrow> string \<Rightarrow> error + response" where
  "login sec db uname pw =
     (case find (\<lambda>u. username u = uname) (user_table db) of
        None \<Rightarrow> Inl InvalidCredentials
      | Some u \<Rightarrow>
          if check_password_hash sec (password u) pw
          then Inr (AccessToken (str (id_user u)))
          else Inl InvalidCredentials)"

subsection \<open>The task routes\<close>

text \<open>\<open>tasks()\<close> on a POST request.\<close>

definition create_task ::
  "database \<Rightarrow> int \<Rightarrow> string \<Rightarrow> string \<Rightarrow> string \<Rightarrow> database \<times> (error + response)" where
  "create_task db uid ttl prio due =
     (case strptime due of
        Inl e \<Rightarrow> (db, Inl e)
      | Inr d \<Rightarrow>
          if has_nul ttl \<or> has_nul prio then (db, Inl ValueError)
          else
           (case varchar 120 ttl of
              Inl e \<Rightarrow> (db, Inl e)
            | Inr t \<Rightarrow>
                (case varchar 20 prio of
                   Inl e \<Rightarrow> (db, Inl e)
                 | Inr p \<Rightarrow>
                     if uid \<notin> set (map id_user (user_table db))
                     then (db\<lparr>task_id_seq := task_id_seq db + 1\<rparr>,
                           Inl (IntegrityError ForeignKeyViolation))
                     else (db\<lparr>task_table := task_table db @
                                 [\<lparr>id_task = task_id_seq db, title = t, status = ''Pending'',
                                   priority = p, due_date = d, user_id = uid\<rparr>],
                               task_id_seq := task_id_seq db + 1\<rparr>,
                           Inr (Message ''Task created'')))))"

text \<open>\<open>tasks()\<close> on a GET request.\<close>

definition list_tasks :: "database \<Rightarrow> int \<Rightarrow> task_json list" where
  "list_tasks db uid =
     map (\<lambda>t. \<lparr>tj_id = id_task t, tj_title = title t, tj_status = status t,
               tj_priority = priority t, tj_due_date = isoformat (due_date t)\<rparr>)
         (filter (\<lambda>t. user_id t = uid) (task_table db))"

text \<open>
  \<open>first()\<close> takes the first row of the query; the assignment to \<open>task.status\<close> is
  written back by \<open>commit()\<close> as an update of the row with that primary key, which is
  \<open>set_completed\<close> on every row of the table.
\<close>

definition set_completed :: "int \<Rightarrow> task \<Rightarrow> task" where
  "set_completed k t = (if id_task t = k then t\<lparr>status := ''Completed''\<rparr> else t)"

definition complete_task :: "database \<Rightarrow> int \<Rightarrow> int \<Rightarrow> database \<times> (error + response)" where
  "complete_task db uid tid =
     (case find (\<lambda>t. id_task t = tid \<and> user_id t = uid) (task_table db) of
        None \<Rightarrow> (db, Inl NotFound)
      | Some tk \<Rightarrow>
          (db\<lparr>task_table := map (set_completed (id_task tk)) (task_table db)\<rparr>,
           Inr (Message ''Completed'')))"

definition count_query :: "database \<Rightarrow> (task \<Rightarrow> bool) \<Rightarrow> int" where
  "count_query db P = int (length (filter P (task_table db)))"

definition stats :: "database \<Rightarrow> int \<Rightarrow> stats_json" where
  "stats db uid =
     (let total = count_query db (\<lambda>t. user_id t = uid);
          n_completed = count_query db (\<lambda>t. user_id t = uid \<and> status t = ''Completed'');
          n_pending = total - n_completed
      in \<lparr>completed = n_completed, pending = n_pending,
          Low = count_query db (\<lambda>t. user_id t = uid \<and> priority t = ''Low''),
          Medium = count_query db (\<lambda>t. user_id t = uid \<and> priority t = ''Medium''),
          High = count_query db (\<lambda>t. user_id t = uid \<and> priority t = ''High'')\<rparr>)"

definition reminders :: "database \<Rightarrow> date \<Rightarrow> int \<Rightarrow> reminders_json" where
  "reminders db now uid =
     \<lparr>overdue = map title (filter (\<lambda>t. user_id t = uid \<and> status t \<noteq> ''Completed'' \<and>
                                      date_lt (due_date t) now) (task_table db)),
      today = map title (filter (\<lambda>t. user_id t = uid \<and> status t \<noteq> ''Completed'' \<and>
                                    due_date t = now) (task_table db))\<rparr>"

subsection \<open>The background job\<close>

text \<open>
  \<open>Task.query\<close> of Flask-SQLAlchemy takes its session from the application context of
  Flask. Flask opens one for every request, so the routes have it. Code that runs
  elsewhere has it only inside \<open>with app.app_context()\<close>, as \<open>init_db\<close> does for
  \<open>db.create_all()\<close>; without it the query raises \<open>RuntimeError\<close>. The argument says
  whether an application context is open.
\<close>

definition task_query :: "bool \<Rightarrow> database \<Rightarrow> error + task list" where
  "task_query app_context db = (if app_context then Inr (task_table db) else Inl RuntimeError)"

text \<open>The result of the job is the list of the lines that it prints.\<close>

definition reminder_job :: "bool \<Rightarrow> database \<Rightarrow> date \<Rightarrow> error + string list" where
  "reminder_job app_context db now =
     (case task_query app_context db of
        Inl e \<Rightarrow> Inl e
      | Inr rows \<Rightarrow>
          (let n = int (length (filter (\<lambda>t. status t \<noteq> ''Completed'' \<and>
                                            date_lt (due_date t) now) rows))
           in Inr (if n > 0 then [''[REMINDER] '' @ str n @ '' overdue tasks''] else [])))"

subsection \<open>One step of the system\<close>

text \<open>
  Everything that reaches the database: the seven routes, each with the identity of its
  caller where the route asks for one, and the tick of the scheduler. The scheduler
  calls \<open>reminder_job\<close> on its own thread, where no application context is open.
\<close>

datatype request =
    Register string string string
  | Login string string
  | CreateTask int string string string
  | ListTasks int
  | CompleteTask int int
  | Stats int
  | Reminders int
  | ReminderJob

fun step :: "security \<Rightarrow> date \<Rightarrow> database \<Rightarrow> request \<Rightarrow> database \<times> (error + response)" where
  "step sec now db (Register salt uname pw) = register sec salt db uname pw"
| "step sec now db (Login uname pw) = (db, login sec db uname pw)"
| "step sec now db (CreateTask uid ttl prio due) = create_task db uid ttl prio due"
| "step sec now db (ListTasks uid) = (db, Inr (TaskList (list_tasks db uid)))"
| "step sec now db (CompleteTask uid tid) = complete_task db uid tid"
| "step sec now db (Stats uid) = (db, Inr (StatsResponse (stats db uid)))"
| "step sec now db (Reminders uid) = (db, Inr (RemindersResponse (reminders db now uid)))"
| "step sec now db ReminderJob =
     (db, case reminder_job False db now of Inl e \<Rightarrow> Inl e | Inr ls \<Rightarrow> Inr (Printed ls))"

text \<open>
  A run: the requests in the order in which the database serves them, each with the date
  of the day on which it is served.
\<close>

fun run :: "security \<Rightarrow> database \<Rightarrow> (date \<times> request) list \<Rightarrow> database" where
  "run sec db [] = db"
| "run sec db ((now, r) # rs) = run sec (fst (step sec now db r)) rs"

subsection \<open>What the constraints of the schema keep true\<close>

definition wf :: "database \<Rightarrow> bool" where
  "wf db \<longleftrightarrow>
     distinct (map id_user (user_table db)) \<and>
     distinct (map username (user_table db)) \<and>
     distinct (map id_task (task_table db)) \<and>
     (\<forall>u \<in> set (user_table db). id_user u < user_id_seq db) \<and>
     (\<forall>t \<in> set (task_table db). id_task t < task_id_seq db) \<and>
     (\<forall>t \<in> set (task_table db). user_id t \<in> set (map id_user (user_table db)))"

subsection \<open>The fields of a task that no route assigns\<close>

definition frozen_fields :: "task \<Rightarrow> int \<times> string \<times> string \<times> date \<times> int" where
  "frozen_fields t = (id_task t, title t, priority t, due_date t, user_id t)"

subsection \<open>A small database for the examples\<close>

text \<open>
  A stand-in for the password library, and the database after two registrations and
  three task creations, one of them completed. Nothing below depends on the stand-in
  beyond the length of what it returns.
\<close>

definition example_security :: security where
  "example_security =
     \<lparr>generate_password_hash = (\<lambda>salt pw. ''toy$'' @ salt @ ''$'' @ rev pw),
      check_password_hash = (\<lambda>h pw. takeWhile (\<lambda>c. c \<noteq> CHR ''$'') (rev h) = pw)\<rparr>"

definition example_today :: date where
  "example_today = \<lparr>year = 2024, month = 6, day = 1\<rparr>"

definition example_db :: database where
  "example_db =
     \<lparr>user_table =
        [\<lparr>id_user = 1, username = ''alice'', password = ''toy$s1$terces''\<rparr>,
         \<lparr>id_user = 2, username = ''bob'', password = ''toy$s2$drowssap''\<rparr>],
      task_table =
        [\<lparr>id_task = 1, title = ''Pay rent'', status = ''Pending'', priority = ''High'',
          due_date = \<lparr>year = 2024, month = 1, day = 1\<rparr>, user_id = 1\<rparr>,
         \<lparr>id_task = 2, title = ''Read'', status = ''Pending'', priority = ''Low'',
          due_date = \<lparr>year = 2024, month = 6, day = 1\<rparr>, user_id = 2\<rparr>,
         \<lparr>id_task = 3, title = ''Shop'', status = ''Completed'', priority = ''Medium'',
          due_date = \<lparr>year = 2024, month = 5, day = 1\<rparr>, user_id = 1\<rparr>],
      user_id_seq = 3, task_id_seq = 4\<rparr>"

section \<open>Properties\<close>

subsection \<open>The invariant of the schema\<close>

lemma wf_init_db: "wf init_db"
  by (simp add: wf_def init_db_def)

lemma wf_example_db: "wf example_db"
  by (simp add: wf_def example_db_def)

lemma varchar_fits: "length s \<le> n \<Longrightarrow> varchar n s = Inr s"
  by (simp add: varchar_def)

lemma find_SomeD: "find P xs = Some x \<Longrightarrow> x \<in> set xs \<and> P x"
  by (induction xs) (auto split: if_splits)

lemma find_NoneD: "find P xs = None \<longleftrightarrow> (\<forall>x \<in> set xs. \<not> P x)"
  by (induction xs) auto

lemma set_completed_fields [simp]:
  "id_task (set_completed k t) = id_task t"
  "user_id (set_completed k t) = user_id t"
  "title (set_completed k t) = title t"
  "priority (set_completed k t) = priority t"
  "due_date (set_completed k t) = due_date t"
  by (simp_all add: set_completed_def)


text \<open>The lookup of \<open>complete_task\<close> finds a row exactly when one exists.\<close>

lemma complete_task_eq:
  "complete_task db uid tid =
     (if \<exists>t \<in> set (task_table db). id_task t = tid \<and> user_id t = uid
      then (db\<lparr>task_table := map (set_completed tid) (task_table db)\<rparr>,
            Inr (Message ''Completed''))
      else (db, Inl NotFound))"
proof (cases "find (\<lambda>t. id_task t = tid \<and> user_id t = uid) (task_table db)")
  case None
  then have "\<not> (\<exists>t \<in> set (task_table db). id_task t = tid \<and> user_id t = uid)"
    by (simp add: find_NoneD)
  with None show ?thesis
    by (simp add: complete_task_def)
next
  case (Some tk)
  then have "tk \<in> set (task_table db)" "id_task tk = tid" "user_id tk = uid"
    using find_SomeD [OF Some] by simp_all
  then show ?thesis
    using Some by (auto simp: complete_task_def)
qed

lemma wf_register: "wf db \<Longrightarrow> wf (fst (register sec salt db uname pw))"
  unfolding register_def wf_def
  by (auto split: sum.splits)

lemma wf_create_task: "wf db \<Longrightarrow> wf (fst (create_task db uid ttl prio due))"
  unfolding create_task_def wf_def
  by (auto split: sum.splits)

lemma wf_complete_task: "wf db \<Longrightarrow> wf (fst (complete_task db uid tid))"
  by (auto simp: complete_task_eq wf_def comp_def)

lemma wf_step: "wf db \<Longrightarrow> wf (fst (step sec now db r))"
  by (cases r) (simp_all add: wf_register wf_create_task wf_complete_task)

lemma wf_run: "wf db \<Longrightarrow> wf (run sec db rs)"
  by (induction rs arbitrary: db) (auto simp: wf_step)

text \<open>Every state that the system reaches from the empty database satisfies \<open>wf\<close>.\<close>

lemma wf_reachable: "wf (run sec init_db rs)"
  by (rule wf_run [OF wf_init_db])

subsection \<open>Completing a task\<close>

text \<open>
  C4. \<open>complete_task\<close> answers \<open>NotFound\<close> exactly when the table has no row with the
  given id that belongs to the caller, and then returns the database as it was.
  Otherwise it answers with the confirmation, and the new table is the old one with
  the status of the row of that id set to \<open>Completed\<close>.
\<close>

theorem complete_task_outcome:
  "(snd (complete_task db uid tid) = Inl NotFound \<longleftrightarrow>
      \<not> (\<exists>t \<in> set (task_table db). id_task t = tid \<and> user_id t = uid)) \<and>
   (snd (complete_task db uid tid) = Inl NotFound \<longrightarrow> fst (complete_task db uid tid) = db) \<and>
   (snd (complete_task db uid tid) \<noteq> Inl NotFound \<longrightarrow>
      complete_task db uid tid =
        (db\<lparr>task_table := map (\<lambda>t. if id_task t = tid then t\<lparr>status := ''Completed''\<rparr> else t)
                               (task_table db)\<rparr>,
         Inr (Message ''Completed'')))"
  by (simp add: complete_task_eq set_completed_def [abs_def])

theorem complete_task_outcome_witness:
  "snd (complete_task example_db 1 2) = Inl NotFound \<and>
   \<not> (\<exists>t \<in> set (task_table example_db). id_task t = 2 \<and> user_id t = 1) \<and>
   fst (complete_task example_db 1 2) = example_db \<and>
   snd (complete_task example_db 1 1) \<noteq> Inl NotFound \<and>
   complete_task example_db 1 1 =
     (example_db\<lparr>task_table :=
        map (\<lambda>t. if id_task t = 1 then t\<lparr>status := ''Completed''\<rparr> else t)
            (task_table example_db)\<rparr>,
      Inr (Message ''Completed''))"
  using complete_task_outcome [of example_db 1 2] complete_task_outcome [of example_db 1 1]
  by (simp add: example_db_def complete_task_def set_completed_def)



subsection \<open>Isolation of users\<close>

lemma filter_removeAll_other: "\<not> P t \<Longrightarrow> filter P (removeAll t xs) = filter P xs"
  by (induction xs) auto

lemma distinct_id_eq:
  "distinct (map f xs) \<Longrightarrow> x \<in> set xs \<Longrightarrow> y \<in> set xs \<Longrightarrow> f x = f y \<Longrightarrow> x = y"
  by (meson distinct_map inj_onD)

text \<open>
  C1. Let \<open>t\<close> be a task of user \<open>a\<close> and \<open>b\<close> another user. The id of \<open>t\<close> is not among the
  tasks that \<open>list_tasks\<close> returns to \<open>b\<close>; what \<open>list_tasks\<close>, \<open>stats\<close> and \<open>reminders\<close>
  return to \<open>b\<close> is what they return when \<open>t\<close> is not in the table at all; and
  \<open>complete_task\<close> by \<open>b\<close> on the id of \<open>t\<close> answers \<open>NotFound\<close> and returns the database
  as it was.
\<close>

theorem isolation:
  assumes "wf db" and "t \<in> set (task_table db)" and "user_id t = a" and "a \<noteq> b"
  shows "id_task t \<notin> set (map tj_id (list_tasks db b)) \<and>
         list_tasks (db\<lparr>task_table := removeAll t (task_table db)\<rparr>) b = list_tasks db b \<and>
         stats (db\<lparr>task_table := removeAll t (task_table db)\<rparr>) b = stats db b \<and>
         reminders (db\<lparr>task_table := removeAll t (task_table db)\<rparr>) now b = reminders db now b \<and>
         complete_task db b (id_task t) = (db, Inl NotFound)"
proof -
  have ids: "distinct (map id_task (task_table db))"
    using assms(1) by (simp add: wf_def)
  have other: "t' \<in> set (task_table db) \<Longrightarrow> id_task t' = id_task t \<Longrightarrow> user_id t' \<noteq> b" for t'
    using distinct_id_eq [OF ids _ assms(2)] assms(3,4) by blast
  have absent: "id_task t \<notin> set (map tj_id (list_tasks db b))"
  proof
    assume "id_task t \<in> set (map tj_id (list_tasks db b))"
    then obtain t' where "t' \<in> set (task_table db)" "user_id t' = b" "id_task t' = id_task t"
      by (auto simp: list_tasks_def)
    with other show False by blast
  qed
  have notb: "user_id t \<noteq> b"
    using assms(3,4) by simp
  have listing: "list_tasks (db\<lparr>task_table := removeAll t (task_table db)\<rparr>) b = list_tasks db b"
    using notb by (simp add: list_tasks_def filter_removeAll_other)
  have counting: "stats (db\<lparr>task_table := removeAll t (task_table db)\<rparr>) b = stats db b"
    using notb by (simp add: stats_def count_query_def filter_removeAll_other)
  have reminding:
    "reminders (db\<lparr>task_table := removeAll t (task_table db)\<rparr>) now b = reminders db now b"
    using notb by (simp add: reminders_def filter_removeAll_other)
  have completing: "complete_task db b (id_task t) = (db, Inl NotFound)"
    using other by (auto simp: complete_task_eq)
  from absent listing counting reminding completing show ?thesis
    by simp
qed

theorem isolation_witness:
  "wf example_db \<and> task_table example_db ! 1 \<in> set (task_table example_db) \<and>
   user_id (task_table example_db ! 1) = 2 \<and> id_task (task_table example_db ! 1) = 2 \<and>
   (2::int) \<noteq> 1 \<and>
   2 \<notin> set (map tj_id (list_tasks example_db 1)) \<and>
   list_tasks (example_db\<lparr>task_table := removeAll (task_table example_db ! 1) (task_table example_db)\<rparr>) 1 =
     list_tasks example_db 1 \<and>
   stats (example_db\<lparr>task_table := removeAll (task_table example_db ! 1) (task_table example_db)\<rparr>) 1 =
     stats example_db 1 \<and>
   reminders (example_db\<lparr>task_table := removeAll (task_table example_db ! 1) (task_table example_db)\<rparr>)
       example_today 1 =
     reminders example_db example_today 1 \<and>
   complete_task example_db 1 2 = (example_db, Inl NotFound)"
  using isolation [of example_db "task_table example_db ! 1" 2 1 example_today] wf_example_db
  by (simp add: example_db_def)

subsection \<open>Statistics\<close>

lemma priority_partition:
  "\<forall>t \<in> set ts. priority t = ''Low'' \<or> priority t = ''Medium'' \<or> priority t = ''High'' \<Longrightarrow>
   length (filter (\<lambda>t. priority t = ''Low'') ts) + length (filter (\<lambda>t. priority t = ''Medium'') ts) +
   length (filter (\<lambda>t. priority t = ''High'') ts) = length ts"
  by (induction ts) auto

lemma status_partition:
  "length (filter (\<lambda>t. status t = ''Completed'') ts) +
   length (filter (\<lambda>t. status t \<noteq> ''Completed'') ts) = length ts"
  by (induction ts) auto

text \<open>
  C6. \<open>completed\<close> counts the caller's tasks with status \<open>Completed\<close>, \<open>pending\<close> is the
  number of the caller's tasks minus \<open>completed\<close>, which is the number of the caller's
  other tasks, so the two add up to the number of tasks owned. Each priority bucket
  counts the caller's tasks of that priority whatever their status, and the three
  buckets add up to the number of tasks owned when every task of the caller has one of
  the three priorities.
\<close>

theorem stats_counts:
  "completed (stats db uid) =
     int (length (filter (\<lambda>t. status t = ''Completed'')
                    (filter (\<lambda>t. user_id t = uid) (task_table db)))) \<and>
   pending (stats db uid) =
     int (length (filter (\<lambda>t. user_id t = uid) (task_table db))) - completed (stats db uid) \<and>
   pending (stats db uid) =
     int (length (filter (\<lambda>t. status t \<noteq> ''Completed'')
                    (filter (\<lambda>t. user_id t = uid) (task_table db)))) \<and>
   pending (stats db uid) + completed (stats db uid) =
     int (length (filter (\<lambda>t. user_id t = uid) (task_table db))) \<and>
   Low (stats db uid) =
     int (length (filter (\<lambda>t. priority t = ''Low'')
                    (filter (\<lambda>t. user_id t = uid) (task_table db)))) \<and>
   Medium (stats db uid) =
     int (length (filter (\<lambda>t. priority t = ''Medium'')
                    (filter (\<lambda>t. user_id t = uid) (task_table db)))) \<and>
   High (stats db uid) =
     int (length (filter (\<lambda>t. priority t = ''High'')
                    (filter (\<lambda>t. user_id t = uid) (task_table db)))) \<and>
   ((\<forall>t \<in> set (task_table db). user_id t = uid \<longrightarrow>
        priority t = ''Low'' \<or> priority t = ''Medium'' \<or> priority t = ''High'') \<longrightarrow>
    Low (stats db uid) + Medium (stats db uid) + High (stats db uid) =
      int (length (filter (\<lambda>t. user_id t = uid) (task_table db))))"
proof -
  let ?own = "filter (\<lambda>t. user_id t = uid) (task_table db)"
  have conj_filter: "filter (\<lambda>t. user_id t = uid \<and> P t) (task_table db) = filter P ?own" for P
    by (simp add: conj_commute)
  have sp: "length (filter (\<lambda>t. status t = ''Completed'') ?own) +
            length (filter (\<lambda>t. status t \<noteq> ''Completed'') ?own) = length ?own"
    by (rule status_partition)
  have pp: "length (filter (\<lambda>t. priority t = ''Low'') ?own) +
            length (filter (\<lambda>t. priority t = ''Medium'') ?own) +
            length (filter (\<lambda>t. priority t = ''High'') ?own) = length ?own"
    if "\<forall>t \<in> set (task_table db). user_id t = uid \<longrightarrow>
        priority t = ''Low'' \<or> priority t = ''Medium'' \<or> priority t = ''High''"
    using that by (intro priority_partition) simp
  show ?thesis
    unfolding stats_def count_query_def Let_def conj_filter
    using sp pp by (simp del: filter_filter) linarith
qed

theorem stats_counts_witness:
  "map priority (filter (\<lambda>t. user_id t = 1) (task_table example_db)) = [''High'', ''Medium''] \<and>
   stats example_db 1 = \<lparr>completed = 1, pending = 1, Low = 0, Medium = 1, High = 1\<rparr> \<and>
   Low (stats example_db 1) + Medium (stats example_db 1) + High (stats example_db 1) =
     int (length (filter (\<lambda>t. user_id t = 1) (task_table example_db)))"
  using stats_counts [of example_db 1]
  by (simp add: example_db_def stats_def count_query_def)

subsection \<open>Reminders\<close>

text \<open>
  C7. \<open>overdue\<close> is the list of the titles of the caller's tasks that are not
  \<open>Completed\<close> and are due before the current date, \<open>today\<close> the list of the titles of
  those due on the current date; the current date is not before itself, so a task due
  today is not overdue; and the answer is the same when all \<open>Completed\<close> tasks are taken
  out of the table, so none of them contributes to either list.
\<close>

theorem reminders_lists:
  "overdue (reminders db now uid) =
     map title (filter (\<lambda>t. status t \<noteq> ''Completed'' \<and> date_lt (due_date t) now)
                  (filter (\<lambda>t. user_id t = uid) (task_table db))) \<and>
   today (reminders db now uid) =
     map title (filter (\<lambda>t. status t \<noteq> ''Completed'' \<and> due_date t = now)
                  (filter (\<lambda>t. user_id t = uid) (task_table db))) \<and>
   reminders (db\<lparr>task_table := filter (\<lambda>t. status t \<noteq> ''Completed'') (task_table db)\<rparr>) now uid =
     reminders db now uid \<and>
   \<not> date_lt now now"
proof -
  have "filter (\<lambda>t. user_id t = uid \<and> status t \<noteq> ''Completed'' \<and> P t)
          (filter (\<lambda>t. status t \<noteq> ''Completed'') (task_table db)) =
        filter (\<lambda>t. user_id t = uid \<and> status t \<noteq> ''Completed'' \<and> P t) (task_table db)" for P
    by (simp, rule filter_cong) auto
  then have "reminders (db\<lparr>task_table := filter (\<lambda>t. status t \<noteq> ''Completed'') (task_table db)\<rparr>)
               now uid = reminders db now uid"
    by (simp add: reminders_def del: filter_filter)
  moreover have "filter (\<lambda>t. user_id t = uid \<and> Q t) (task_table db) =
                 filter Q (filter (\<lambda>t. user_id t = uid) (task_table db))" for Q
    by (simp add: conj_commute)
  ultimately show ?thesis
    by (simp add: reminders_def date_lt_def del: filter_filter)
qed

theorem reminders_lists_example:
  "reminders example_db example_today 1 = \<lparr>overdue = [''Pay rent''], today = []\<rparr> \<and>
   reminders example_db example_today 2 = \<lparr>overdue = [], today = [''Read'']\<rparr> \<and>
   reminders (fst (complete_task example_db 1 1)) example_today 1 = \<lparr>overdue = [], today = []\<rparr>"
  using reminders_lists [of example_db example_today 1]
  by (simp add: reminders_def example_db_def example_today_def date_lt_def complete_task_def
      set_completed_def)

subsection \<open>The background job\<close>

lemma digit_value_digit_chars: "k < 10 \<Longrightarrow> digit_value (digit_chars ! k) = k"
proof -
  assume "k < 10"
  then consider "k = 0" | "k = 1" | "k = 2" | "k = 3" | "k = 4" | "k = 5" | "k = 6" | "k = 7"
    | "k = 8" | "k = 9"
    by atomize_elim arith
  then show ?thesis
    by cases (simp_all add: digit_value_def digit_chars_def)
qed

lemma digit_chars_not_blank: "k < 10 \<Longrightarrow> digit_chars ! k \<noteq> CHR '' ''"
proof -
  assume "k < 10"
  then consider "k = 0" | "k = 1" | "k = 2" | "k = 3" | "k = 4" | "k = 5" | "k = 6" | "k = 7"
    | "k = 8" | "k = 9"
    by atomize_elim arith
  then show ?thesis
    by cases (simp_all add: digit_chars_def)
qed

lemma str_nat_shape: "str_nat n \<noteq> [] \<and> hd (str_nat n) \<noteq> CHR '' ''"
proof (induction n rule: str_nat.induct)
  case (1 n)
  show ?case
  proof (cases "n < 10")
    case True
    then show ?thesis
      by (subst str_nat.simps, subst (2) str_nat.simps) (simp add: digit_chars_not_blank)
  next
    case False
    with 1 show ?thesis
      by (subst str_nat.simps, subst (2) str_nat.simps) simp
  qed
qed

lemma foldl_str_nat: "foldl (\<lambda>a c. 10 * a + digit_value c) 0 (str_nat n) = n"
proof (induction n rule: str_nat.induct)
  case (1 n)
  show ?case
  proof (cases "n < 10")
    case True
    then show ?thesis
      by (subst str_nat.simps) (simp add: digit_value_digit_chars)
  next
    case False
    with 1 show ?thesis
      by (subst str_nat.simps) (simp add: digit_value_digit_chars)
  qed
qed

lemma py_int_str_nat: "py_int (str_nat n) = n"
proof -
  have "dropWhile (\<lambda>c. c = CHR '' '') (str_nat n) = str_nat n"
    using str_nat_shape [of n] by (cases "str_nat n") simp_all
  then show ?thesis
    by (simp add: py_int_def foldl_str_nat)
qed

text \<open>
  Inside an application context the job does what its code says: with \<open>n\<close> the number of
  tasks, of any user, that are not \<open>Completed\<close> and are due before the current date, it
  prints the one line \<open>[REMINDER] n overdue tasks\<close> when \<open>n\<close> is positive and nothing when
  \<open>n\<close> is zero, and the decimal text in the line reads back as \<open>n\<close>.
\<close>

lemma reminder_job_in_context:
  "reminder_job True db now =
     Inr (if 0 < length (filter (\<lambda>t. status t \<noteq> ''Completed'' \<and> date_lt (due_date t) now)
                          (task_table db))
          then [''[REMINDER] '' @
                str_nat (length (filter (\<lambda>t. status t \<noteq> ''Completed'' \<and> date_lt (due_date t) now)
                                   (task_table db))) @
                '' overdue tasks'']
          else []) \<and>
   py_int (str_nat (length (filter (\<lambda>t. status t \<noteq> ''Completed'' \<and> date_lt (due_date t) now)
                              (task_table db)))) =
     length (filter (\<lambda>t. status t \<noteq> ''Completed'' \<and> date_lt (due_date t) now) (task_table db))"
  by (simp add: reminder_job_def task_query_def str_def py_int_str_nat)

text \<open>As the scheduler runs it, the job raises and prints nothing, whatever is overdue.\<close>

lemma reminder_job_scheduled: "step sec now db ReminderJob = (db, Inl RuntimeError)"
  by (simp add: reminder_job_def task_query_def)

text \<open>
  C8. The tick on the example database, on a day on which one task that is not
  \<open>Completed\<close> is overdue: inside an application context the job would print its one
  line with the count 1; as scheduled it raises \<open>RuntimeError\<close>, prints nothing and leaves
  the database as it was.
\<close>

theorem reminder_job_tick:
  "reminder_job True example_db example_today = Inr [''[REMINDER] 1 overdue tasks''] \<and>
   step example_security example_today example_db ReminderJob = (example_db, Inl RuntimeError)"
  by (simp add: reminder_job_def task_query_def example_db_def example_today_def date_lt_def
      str_def str_nat.simps [of "Suc 0"] digit_chars_def)

subsection \<open>What a step leaves unchanged\<close>

lemma nth_map_set_completed:
  assumes "distinct (map id_task ts)" and "i < length ts" and "id_task (ts ! i) = tid"
  shows "map (set_completed tid) ts = ts[i := (ts ! i)\<lparr>status := ''Completed''\<rparr>]"
proof (rule nth_equalityI)
  show "length (map (set_completed tid) ts) = length (ts[i := (ts ! i)\<lparr>status := ''Completed''\<rparr>])"
    by simp
next
  fix j
  assume "j < length (map (set_completed tid) ts)"
  then have j: "j < length ts" by simp
  show "map (set_completed tid) ts ! j = ts[i := (ts ! i)\<lparr>status := ''Completed''\<rparr>] ! j"
  proof (cases "j = i")
    case True
    then show ?thesis
      using assms(2,3) by (simp add: set_completed_def)
  next
    case False
    then have "map id_task ts ! j \<noteq> map id_task ts ! i"
      using assms(1,2) j by (simp add: nth_eq_iff_index_eq del: nth_map)
    then have "id_task (ts ! j) \<noteq> tid"
      using assms(2,3) j by simp
    then show ?thesis
      using False j by (simp add: set_completed_def)
  qed
qed


lemma frozen_set_completed: "frozen_fields (set_completed k t) = frozen_fields t"
  by (simp add: frozen_fields_def)

lemma complete_task_one_row:
  assumes "wf db"
  shows "complete_task db uid tid = (db, Inl NotFound) \<or>
         (\<exists>i < length (task_table db).
            id_task (task_table db ! i) = tid \<and> user_id (task_table db ! i) = uid \<and>
            complete_task db uid tid =
              (db\<lparr>task_table := (task_table db)[i := (task_table db ! i)\<lparr>status := ''Completed''\<rparr>]\<rparr>,
               Inr (Message ''Completed'')))"
proof (cases "\<exists>t \<in> set (task_table db). id_task t = tid \<and> user_id t = uid")
  case False
  then have "complete_task db uid tid = (db, Inl NotFound)"
    by (simp only: complete_task_eq if_False)
  then show ?thesis ..
next
  case True
  then obtain i where i: "i < length (task_table db)" "id_task (task_table db ! i) = tid"
      "user_id (task_table db ! i) = uid"
    by (auto simp: in_set_conv_nth)
  have "distinct (map id_task (task_table db))"
    using assms by (simp add: wf_def)
  from nth_map_set_completed [OF this i(1,2)]
  have "complete_task db uid tid =
          (db\<lparr>task_table := (task_table db)[i := (task_table db ! i)\<lparr>status := ''Completed''\<rparr>]\<rparr>,
           Inr (Message ''Completed''))"
    using True by (simp only: complete_task_eq if_P)
  with i show ?thesis
    by blast
qed

text \<open>
  C9. For every request, on a database that satisfies the constraints of the schema:
  the user rows of before are still there, unchanged and in place; so are the id, title,
  priority, due date and owner of every task row; the status of a task row differs
  afterwards only when the request is \<open>complete_task\<close> by the owner of that task on its
  id, and then it is \<open>Completed\<close>; and \<open>complete_task\<close> leaves the user table and both
  sequences as they were and either leaves the task table as it was or replaces the
  status of the one row that has the given id and belongs to the caller.
\<close>

theorem frame:
  assumes "wf db"
  shows "(\<exists>new. user_table (fst (step sec now db r)) = user_table db @ new) \<and>
         (\<exists>new. map frozen_fields (task_table (fst (step sec now db r))) =
                 map frozen_fields (task_table db) @ new) \<and>
         (\<forall>i < length (task_table db).
            status (task_table (fst (step sec now db r)) ! i) \<noteq> status (task_table db ! i) \<longrightarrow>
            r = CompleteTask (user_id (task_table db ! i)) (id_task (task_table db ! i)) \<and>
            status (task_table (fst (step sec now db r)) ! i) = ''Completed'') \<and>
         (\<forall>uid tid. r = CompleteTask uid tid \<longrightarrow>
            user_table (fst (step sec now db r)) = user_table db \<and>
            user_id_seq (fst (step sec now db r)) = user_id_seq db \<and>
            task_id_seq (fst (step sec now db r)) = task_id_seq db \<and>
            (task_table (fst (step sec now db r)) = task_table db \<or>
             (\<exists>i < length (task_table db).
                id_task (task_table db ! i) = tid \<and> user_id (task_table db ! i) = uid \<and>
                task_table (fst (step sec now db r)) =
                  (task_table db)[i := (task_table db ! i)\<lparr>status := ''Completed''\<rparr>])))"
proof (cases r)
  case (Register salt uname pw)
  then show ?thesis
    by (auto simp: register_def split: sum.splits)
next
  case (Login uname pw)
  then show ?thesis by simp
next
  case (CreateTask uid ttl prio due)
  then show ?thesis
    by (auto simp: create_task_def nth_append split: sum.splits)
next
  case (ListTasks uid)
  then show ?thesis by simp
next
  case (CompleteTask uid tid)
  from complete_task_one_row [OF assms, of uid tid]
  show ?thesis
  proof
    assume "complete_task db uid tid = (db, Inl NotFound)"
    with CompleteTask show ?thesis by simp
  next
    assume "\<exists>i < length (task_table db).
            id_task (task_table db ! i) = tid \<and> user_id (task_table db ! i) = uid \<and>
            complete_task db uid tid =
              (db\<lparr>task_table := (task_table db)[i := (task_table db ! i)\<lparr>status := ''Completed''\<rparr>]\<rparr>,
               Inr (Message ''Completed''))"
    then obtain i where i: "i < length (task_table db)" "id_task (task_table db ! i) = tid"
        "user_id (task_table db ! i) = uid"
        "complete_task db uid tid =
              (db\<lparr>task_table := (task_table db)[i := (task_table db ! i)\<lparr>status := ''Completed''\<rparr>]\<rparr>,
               Inr (Message ''Completed''))"
      by blast
    have fr: "map frozen_fields ((task_table db)[i := (task_table db ! i)\<lparr>status := ''Completed''\<rparr>]) =
              map frozen_fields (task_table db)"
      using i(1) by (simp add: map_update frozen_fields_def list_update_same_conv)
    have st: "status ((task_table db)[i := (task_table db ! i)\<lparr>status := ''Completed''\<rparr>] ! j) \<noteq>
              status (task_table db ! j) \<Longrightarrow> j < length (task_table db) \<Longrightarrow> j = i" for j
      by (cases "j = i") simp_all
    show ?thesis
      using CompleteTask i fr st by (auto simp: nth_list_update)
  qed
next
  case (Stats uid)
  then show ?thesis by simp
next
  case (Reminders uid)
  then show ?thesis by simp
next
  case ReminderJob
  then show ?thesis by simp
qed

lemma strptime_example: "strptime ''2024-07-01'' = Inr \<lparr>year = 2024, month = 7, day = 1\<rparr>"
  by code_simp

theorem frame_witness:
  "wf example_db \<and>
   user_table (fst (step example_security example_today example_db (CompleteTask 1 1))) =
     user_table example_db \<and>
   map frozen_fields
     (task_table (fst (step example_security example_today example_db (CompleteTask 1 1)))) =
     map frozen_fields (task_table example_db) \<and>
   task_table (fst (step example_security example_today example_db (CompleteTask 1 1))) =
     (task_table example_db)[0 := (task_table example_db ! 0)\<lparr>status := ''Completed''\<rparr>] \<and>
   map status
     (task_table (fst (step example_security example_today example_db
        (CreateTask 2 ''Call'' ''Low'' ''2024-07-01'')))) =
     map status (task_table example_db) @ [''Pending'']"
  using frame [of example_db example_security example_today "CompleteTask 1 1"] wf_example_db
    strptime_example
  by (simp add: example_db_def complete_task_def set_completed_def frozen_fields_def
      create_task_def varchar_def has_nul_def)

subsection \<open>Priorities are not validated\<close>

text \<open>
  C10. There is a request whose priority is none of \<open>Low\<close>, \<open>Medium\<close> and \<open>High\<close> for
  which \<open>create_task\<close> succeeds; afterwards the task counts in \<open>completed + pending\<close> of
  its owner, and the three priority buckets add up to less than that.
\<close>

theorem priority_not_validated:
  "\<exists>ttl prio due db'.
     prio \<noteq> ''Low'' \<and> prio \<noteq> ''Medium'' \<and> prio \<noteq> ''High'' \<and>
     create_task example_db 2 ttl prio due = (db', Inr (Message ''Task created'')) \<and>
     completed (stats db' 2) + pending (stats db' 2) =
       int (length (filter (\<lambda>t. user_id t = 2) (task_table example_db))) + 1 \<and>
     Low (stats db' 2) + Medium (stats db' 2) + High (stats db' 2) <
       completed (stats db' 2) + pending (stats db' 2)"
proof -
  let ?db' = "example_db\<lparr>task_table := task_table example_db @
             [\<lparr>id_task = 4, title = ''Call'', status = ''Pending'', priority = ''Urgent'',
               due_date = \<lparr>year = 2024, month = 7, day = 1\<rparr>, user_id = 2\<rparr>],
             task_id_seq := 5\<rparr>"
  note parsed = strptime_example
  have p1: "''Urgent'' \<noteq> ''Low''" and p2: "''Urgent'' \<noteq> ''Medium''"
    and p3: "''Urgent'' \<noteq> ''High''"
    by simp_all
  have created: "create_task example_db 2 ''Call'' ''Urgent'' ''2024-07-01'' =
          (?db', Inr (Message ''Task created''))"
    using parsed by (simp add: create_task_def varchar_def has_nul_def example_db_def)
  have total: "completed (stats ?db' 2) + pending (stats ?db' 2) =
       int (length (filter (\<lambda>t. user_id t = 2) (task_table example_db))) + 1"
    by (simp add: stats_def count_query_def example_db_def)
  have fewer: "Low (stats ?db' 2) + Medium (stats ?db' 2) + High (stats ?db' 2) <
       completed (stats ?db' 2) + pending (stats ?db' 2)"
    by (simp add: stats_def count_query_def example_db_def)
  show ?thesis
    using p1 p2 p3 created total fewer
    by - ((rule exI)+, (intro conjI; assumption))
qed

subsection \<open>The date parser\<close>

text \<open>
  What a matcher returns, as a set: the matched text is a prefix of the input of the
  right shape, and the rest is what follows it.
\<close>

lemma re_class_iff: "(a, r) \<in> set (re_class P s) \<longleftrightarrow> (\<exists>c. s = c # r \<and> a = [c] \<and> P c)"
  by (auto simp: re_class_def split: list.splits)

lemma re_lit_iff: "(a, r) \<in> set (re_lit x s) \<longleftrightarrow> s = x # r \<and> a = [x]"
  by (auto simp: re_lit_def re_class_iff)

lemma re_seq_iff:
  "(a, r) \<in> set (re_seq p q s) \<longleftrightarrow>
     (\<exists>a1 a2 r1. (a1, r1) \<in> set (p s) \<and> (a2, r) \<in> set (q r1) \<and> a = a1 @ a2)"
  by (force simp: re_seq_def)

lemma re_alt_iff: "(a, r) \<in> set (re_alt ps s) \<longleftrightarrow> (\<exists>p \<in> set ps. (a, r) \<in> set (p s))"
  by (auto simp: re_alt_def)

lemma re_Y_iff: "(y, r) \<in> set (re_Y s) \<longleftrightarrow> s = y @ r \<and> year_text y"
  by (auto simp: re_Y_def re_seq_iff re_class_iff year_text_def length_Suc_conv
      numeral_eq_Suc)

lemma re_m_iff: "(m, r) \<in> set (re_m s) \<longleftrightarrow> s = m @ r \<and> month_text m"
  by (auto simp: re_m_def re_alt_iff re_seq_iff re_class_iff re_lit_iff month_text_def
      split: list.splits)

lemma re_d_iff: "(d, r) \<in> set (re_d s) \<longleftrightarrow> s = d @ r \<and> day_text d"
  by (auto simp: re_d_def re_alt_iff re_seq_iff re_class_iff re_lit_iff day_text_def
      split: list.splits)

lemma in_concat_pairs:
  "z \<in> set (concat (map (\<lambda>(a, r). f a r) xs)) \<longleftrightarrow> (\<exists>a r. (a, r) \<in> set xs \<and> z \<in> set (f a r))"
  by auto

lemma in_map_pairs:
  "z \<in> set (map (\<lambda>(a, r). g a r) xs) \<longleftrightarrow> (\<exists>a r. (a, r) \<in> set xs \<and> z = g a r)"
  by auto

lemma format_regex_iff:
  "((y, m, d), r) \<in> set (format_regex s) \<longleftrightarrow>
     s = y @ ''-'' @ m @ ''-'' @ d @ r \<and> year_text y \<and> month_text m \<and> day_text d"
  unfolding format_regex_def in_concat_pairs in_map_pairs re_Y_iff re_m_iff re_d_iff re_lit_iff
  by auto


text \<open>
  The order of the matches: on a text of the accepted shape, the first match of the whole
  expression is the one that consumes all of it.
\<close>

lemma re_Y_year: "year_text y \<Longrightarrow> re_Y (y @ r) = [(y, r)]"
  by (auto simp: year_text_def re_Y_def re_seq_def re_class_def length_Suc_conv numeral_eq_Suc)

lemma re_lit_head: "re_lit x (x # r) = [([x], r)]"
  by (simp add: re_lit_def re_class_def)

lemma re_m_dash:
  "month_text m \<Longrightarrow>
   concat (map (\<lambda>(m', r3). concat (map (\<lambda>(h2, r4). k m' r4) (re_lit CHR ''-'' r3)))
               (re_m (m @ CHR ''-'' # r))) = k m r"
  by (auto simp: month_text_def re_m_def re_alt_def re_seq_def re_class_def re_lit_def
      in_range_def split: list.splits)

lemma re_d_first: "day_text d \<Longrightarrow> \<exists>tl. re_d d = (d, []) # tl"
  by (auto simp: day_text_def re_d_def re_alt_def re_seq_def re_class_def re_lit_def
      in_range_def split: list.splits)

lemma format_regex_fields:
  assumes "year_text y" and "month_text m" and "day_text d"
  shows "\<exists>tl. format_regex (y @ ''-'' @ m @ ''-'' @ d) = ((y, m, d), []) # tl"
proof -
  obtain tl where tl: "re_d d = (d, []) # tl"
    using re_d_first [OF assms(3)] by blast
  have "format_regex (y @ ''-'' @ m @ ''-'' @ d) = map (\<lambda>(d', r5). ((y, m, d'), r5)) (re_d d)"
    using re_m_dash [OF assms(2), of "\<lambda>m' r4. map (\<lambda>(d', r5). ((y, m', d'), r5)) (re_d r4)" d]
    by (simp add: format_regex_def re_Y_year [OF assms(1)] re_lit_head)
  then show ?thesis
    by (simp add: tl)
qed

lemma strptime_fields:
  assumes "year_text y" and "month_text m" and "day_text d"
  shows "strptime (y @ ''-'' @ m @ ''-'' @ d) = datetime_date (py_int y) (py_int m) (py_int d)"
  using format_regex_fields [OF assms] by (auto simp: strptime_def)

lemma datetime_date_error: "datetime_date y m d = Inl e \<Longrightarrow> e = ValueError"
  by (simp add: datetime_date_def split: if_splits)

lemma strptime_error: "strptime s = Inl e \<Longrightarrow> e = ValueError"
  by (auto simp: strptime_def split: list.splits if_splits dest: datetime_date_error)

lemma strptime_accepts_iff:
  "strptime s = Inr dt \<longleftrightarrow>
     (\<exists>y m d. s = y @ ''-'' @ m @ ''-'' @ d \<and> year_text y \<and> month_text m \<and> day_text d \<and>
              datetime_date (py_int y) (py_int m) (py_int d) = Inr dt)"
proof
  assume acc: "strptime s = Inr dt"
  then obtain y m d rest tl where hd: "format_regex s = ((y, m, d), rest) # tl"
    by (auto simp: strptime_def split: list.splits)
  with acc have rest: "rest = []" and dt: "datetime_date (py_int y) (py_int m) (py_int d) = Inr dt"
    by (auto simp: strptime_def split: if_splits)
  have "((y, m, d), rest) \<in> set (format_regex s)"
    by (simp add: hd)
  then have "s = y @ ''-'' @ m @ ''-'' @ d @ rest \<and> year_text y \<and> month_text m \<and> day_text d"
    by (simp only: format_regex_iff)
  with rest dt show "\<exists>y m d. s = y @ ''-'' @ m @ ''-'' @ d \<and> year_text y \<and> month_text m \<and>
      day_text d \<and> datetime_date (py_int y) (py_int m) (py_int d) = Inr dt"
    by auto
next
  assume "\<exists>y m d. s = y @ ''-'' @ m @ ''-'' @ d \<and> year_text y \<and> month_text m \<and> day_text d \<and>
              datetime_date (py_int y) (py_int m) (py_int d) = Inr dt"
  then show "strptime s = Inr dt"
    using strptime_fields by auto
qed


text \<open>Every date in the form \<open>YYYY-MM-DD\<close> is accepted.\<close>

lemma is_digit_cases:
  "is_digit c \<longleftrightarrow> c = CHR ''0'' \<or> c = CHR ''1'' \<or> c = CHR ''2'' \<or> c = CHR ''3'' \<or> c = CHR ''4'' \<or>
     c = CHR ''5'' \<or> c = CHR ''6'' \<or> c = CHR ''7'' \<or> c = CHR ''8'' \<or> c = CHR ''9''"
  by (auto simp: is_digit_def digit_chars_def)

lemma two_digit_month:
  assumes "is_digit a" and "is_digit c" and "1 \<le> py_int [a, c]" and "py_int [a, c] \<le> 12"
  shows "month_text [a, c]"
  using assms unfolding is_digit_cases
  by (elim disjE; simp add: py_int_def digit_value_def month_text_def in_range_def)

lemma two_digit_day:
  assumes "is_digit a" and "is_digit c" and "1 \<le> py_int [a, c]" and "py_int [a, c] \<le> 31"
  shows "day_text [a, c]"
  using assms unfolding is_digit_cases
  by (elim disjE; simp add: py_int_def digit_value_def day_text_def in_range_def is_digit_cases)

lemma days_in_month_le: "days_in_month y m \<le> 31"
  by (simp add: days_in_month_def)

lemma strptime_strict:
  assumes "spec_yyyy_mm_dd s"
  shows "strptime s =
           datetime_date (py_int (take 4 s)) (py_int (take 2 (drop 5 s))) (py_int (drop 8 s)) \<and>
         strptime s \<noteq> Inl ValueError"
proof -
  let ?y = "take 4 s" and ?m = "take 2 (drop 5 s)" and ?d = "drop 8 s"
  from assms have len: "length s = 10" and dy: "list_all is_digit ?y" and h1: "s ! 4 = CHR ''-''"
    and dm: "list_all is_digit ?m" and h2: "s ! 7 = CHR ''-''" and dd: "list_all is_digit ?d"
    and ok: "datetime_date (py_int ?y) (py_int ?m) (py_int ?d) \<noteq> Inl ValueError"
    by (simp_all add: spec_yyyy_mm_dd_def)
  from len obtain c0 c1 c2 c3 c4 c5 c6 c7 c8 c9 where s: "s = [c0, c1, c2, c3, c4, c5, c6, c7, c8, c9]"
    by (auto simp: length_Suc_conv numeral_eq_Suc)
  have split: "s = ?y @ ''-'' @ ?m @ ''-'' @ ?d"
    using h1 h2 by (simp add: s)
  have yt: "year_text ?y"
    using dy len by (simp add: year_text_def)
  from ok have bounds: "1 \<le> py_int ?m" "py_int ?m \<le> 12" "1 \<le> py_int ?d"
      "py_int ?d \<le> days_in_month (py_int ?y) (py_int ?m)"
    by (simp_all add: datetime_date_def split: if_splits)
  then have dle: "py_int ?d \<le> 31"
    using days_in_month_le [of "py_int ?y" "py_int ?m"] by linarith
  have mt: "month_text ?m"
    using dm bounds(1,2) by (simp add: s two_digit_month)
  have dt: "day_text ?d"
    using dd bounds(3) dle by (simp add: s two_digit_day)
  have "strptime (?y @ ''-'' @ ?m @ ''-'' @ ?d) =
          datetime_date (py_int ?y) (py_int ?m) (py_int ?d)"
    by (rule strptime_fields [OF yt mt dt])
  with split ok show ?thesis
    by simp
qed

subsection \<open>Registration\<close>

text \<open>
  C2, as the code has it. For a username of at most 80 characters, the length of its
  column, without the character NUL, and passwords for which \<open>generate_password_hash\<close>
  returns at most the 200 characters of the password column, without NUL: when no user
  has the username, \<open>register\<close> succeeds and appends a user row whose password field is
  the value that \<open>generate_password_hash\<close> returned for the salt and the password; after
  the call the username is taken, and registering it again fails with the
  \<open>IntegrityError\<close> of the unique constraint, the registration conflict that the
  specification calls \<open>DuplicateUser\<close>, and adds no user. What \<open>generate_password_hash\<close>
  returns is the library's matter and a parameter here.
\<close>

theorem register_outcome:
  assumes "length uname \<le> 80" and "\<not> has_nul uname"
    and "length (generate_password_hash sec salt pw) \<le> 200"
    and "\<not> has_nul (generate_password_hash sec salt pw)"
    and "length (generate_password_hash sec salt' pw') \<le> 200"
    and "\<not> has_nul (generate_password_hash sec salt' pw')"
  shows "(uname \<notin> set (map username (user_table db)) \<longrightarrow>
            register sec salt db uname pw =
              (db\<lparr>user_table := user_table db @
                    [\<lparr>id_user = user_id_seq db, username = uname,
                      password = generate_password_hash sec salt pw\<rparr>],
                  user_id_seq := user_id_seq db + 1\<rparr>,
               Inr (Message ''User registered''))) \<and>
         uname \<in> set (map username (user_table (fst (register sec salt db uname pw)))) \<and>
         snd (register sec salt' (fst (register sec salt db uname pw)) uname pw') =
           Inl (IntegrityError UniqueViolation) \<and>
         user_table (fst (register sec salt' (fst (register sec salt db uname pw)) uname pw')) =
           user_table (fst (register sec salt db uname pw))"
proof -
  have dup: "uname \<in> set (map username (user_table d)) \<Longrightarrow>
             register sec s d uname p =
               (d\<lparr>user_id_seq := user_id_seq d + 1\<rparr>, Inl (IntegrityError UniqueViolation))"
    if "length (generate_password_hash sec s p) \<le> 200"
      and "\<not> has_nul (generate_password_hash sec s p)" for d s p
    using that assms(1,2) by (simp add: register_def varchar_fits)
  have fresh: "uname \<notin> set (map username (user_table db)) \<Longrightarrow>
            register sec salt db uname pw =
              (db\<lparr>user_table := user_table db @
                    [\<lparr>id_user = user_id_seq db, username = uname,
                      password = generate_password_hash sec salt pw\<rparr>],
                  user_id_seq := user_id_seq db + 1\<rparr>,
               Inr (Message ''User registered''))"
    using assms(1-4) by (simp add: register_def varchar_fits)
  have present: "uname \<in> set (map username (user_table (fst (register sec salt db uname pw))))"
  proof (cases "uname \<in> set (map username (user_table db))")
    case True
    then show ?thesis using dup [OF assms(3,4), of db] by simp
  next
    case False
    then show ?thesis using fresh by simp
  qed
  from dup [OF assms(5,6) present] fresh present show ?thesis
    by simp
qed

theorem register_outcome_witness:
  "length ''alice'' \<le> 80 \<and> \<not> has_nul ''alice'' \<and>
   length (generate_password_hash example_security ''s1'' ''secret'') \<le> 200 \<and>
   \<not> has_nul (generate_password_hash example_security ''s1'' ''secret'') \<and>
   length (generate_password_hash example_security ''s9'' ''other'') \<le> 200 \<and>
   \<not> has_nul (generate_password_hash example_security ''s9'' ''other'') \<and>
   ''alice'' \<notin> set (map username (user_table init_db)) \<and>
   register example_security ''s1'' init_db ''alice'' ''secret'' =
     (\<lparr>user_table = [\<lparr>id_user = 1, username = ''alice'', password = ''toy$s1$terces''\<rparr>],
       task_table = [], user_id_seq = 2, task_id_seq = 1\<rparr>,
      Inr (Message ''User registered'')) \<and>
   snd (register example_security ''s9''
          (fst (register example_security ''s1'' init_db ''alice'' ''secret'')) ''alice'' ''other'') =
     Inl (IntegrityError UniqueViolation)"
  using register_outcome [of "''alice''" example_security "''s1''" "''secret''" "''s9''" "''other''"
      init_db]
  by (simp add: example_security_def init_db_def register_def varchar_def has_nul_def)

text \<open>
  C2 as stated fails for a username that its column cannot hold: no user has the name
  of 81 letters, and registering it is refused with a \<open>DataError\<close>. It fails as well for
  a username with the character NUL, which the driver refuses with a \<open>ValueError\<close>.
\<close>

theorem register_long_username:
  "replicate 81 CHR ''a'' \<notin> set (map username (user_table init_db)) \<and>
   register example_security ''s1'' init_db (replicate 81 CHR ''a'') ''secret'' =
     (init_db, Inl DataError) \<and>
   [CHR ''a'', CHR 0x00, CHR ''b''] \<notin> set (map username (user_table init_db)) \<and>
   register example_security ''s1'' init_db [CHR ''a'', CHR 0x00, CHR ''b''] ''secret'' =
     (init_db, Inl ValueError)"
  by (simp add: register_def varchar_def init_db_def has_nul_def example_security_def)

subsection \<open>Creating a task\<close>

text \<open>
  C3, as the code has it. \<open>create_task\<close> fails with a \<open>ValueError\<close>, the specification's
  \<open>InvalidInput\<close>, exactly when \<open>strptime\<close> rejects the due date or the driver refuses the
  title or the priority for a character NUL; when \<open>strptime\<close> rejects the due date the
  database is returned as it was, and no failure of any kind adds a task. \<open>strptime\<close>
  rejects a text exactly when it is not a four-digit year, a hyphen, a month, a hyphen
  and a day that name a date of the calendar, where month and day may lack the leading
  zero and a one-digit day may follow a blank; so it accepts every date in the form
  \<open>YYYY-MM-DD\<close>, and others. When it accepts, the title has at most 120 characters, the
  priority at most 20, neither has a NUL, and the caller is a registered user,
  \<open>create_task\<close> appends a task of the caller with the parsed date and the status
  \<open>Pending\<close>.
\<close>

theorem create_task_outcome:
  "(snd (create_task db uid ttl prio due) = Inl ValueError \<longleftrightarrow>
      strptime due = Inl ValueError \<or> has_nul ttl \<or> has_nul prio) \<and>
   (strptime due = Inl ValueError \<longrightarrow> create_task db uid ttl prio due = (db, Inl ValueError)) \<and>
   (\<forall>e. snd (create_task db uid ttl prio due) = Inl e \<longrightarrow>
      task_table (fst (create_task db uid ttl prio due)) = task_table db) \<and>
   (strptime due = Inl ValueError \<longleftrightarrow>
      \<not> (\<exists>y m d. due = y @ ''-'' @ m @ ''-'' @ d \<and> year_text y \<and> month_text m \<and> day_text d \<and>
                  datetime_date (py_int y) (py_int m) (py_int d) \<noteq> Inl ValueError)) \<and>
   (spec_yyyy_mm_dd due \<longrightarrow> strptime due \<noteq> Inl ValueError) \<and>
   (\<forall>dt. strptime due = Inr dt \<and> length ttl \<le> 120 \<and> \<not> has_nul ttl \<and>
         length prio \<le> 20 \<and> \<not> has_nul prio \<and>
         uid \<in> set (map id_user (user_table db)) \<longrightarrow>
      create_task db uid ttl prio due =
        (db\<lparr>task_table := task_table db @
              [\<lparr>id_task = task_id_seq db, title = ttl, status = ''Pending'', priority = prio,
                due_date = dt, user_id = uid\<rparr>],
            task_id_seq := task_id_seq db + 1\<rparr>,
         Inr (Message ''Task created'')))"
proof -
  have verr: "varchar n x \<noteq> Inl ValueError" for n x
    by (simp add: varchar_def)
  have a: "snd (create_task db uid ttl prio due) = Inl ValueError \<longleftrightarrow>
             strptime due = Inl ValueError \<or> has_nul ttl \<or> has_nul prio"
  proof (cases "strptime due")
    case (Inl e)
    then have "e = ValueError" by (rule strptime_error)
    with Inl show ?thesis by (simp add: create_task_def)
  next
    case (Inr dt)
    then show ?thesis
      using verr by (auto simp: create_task_def split: sum.splits)
  qed
  have b: "strptime due = Inl ValueError \<longrightarrow> create_task db uid ttl prio due = (db, Inl ValueError)"
    by (simp add: create_task_def)
  have f: "\<forall>e. snd (create_task db uid ttl prio due) = Inl e \<longrightarrow>
             task_table (fst (create_task db uid ttl prio due)) = task_table db"
    by (auto simp: create_task_def split: sum.splits if_splits)
  have c: "strptime due = Inl ValueError \<longleftrightarrow>
      \<not> (\<exists>y m d. due = y @ ''-'' @ m @ ''-'' @ d \<and> year_text y \<and> month_text m \<and> day_text d \<and>
                  datetime_date (py_int y) (py_int m) (py_int d) \<noteq> Inl ValueError)"
  proof
    assume e: "strptime due = Inl ValueError"
    show "\<not> (\<exists>y m d. due = y @ ''-'' @ m @ ''-'' @ d \<and> year_text y \<and> month_text m \<and> day_text d \<and>
                  datetime_date (py_int y) (py_int m) (py_int d) \<noteq> Inl ValueError)"
      using e strptime_fields by auto
  next
    assume n: "\<not> (\<exists>y m d. due = y @ ''-'' @ m @ ''-'' @ d \<and> year_text y \<and> month_text m \<and>
                  day_text d \<and> datetime_date (py_int y) (py_int m) (py_int d) \<noteq> Inl ValueError)"
    show "strptime due = Inl ValueError"
    proof (cases "strptime due")
      case (Inl e)
      then show ?thesis using strptime_error by simp
    next
      case (Inr dt)
      then obtain y m d where "due = y @ ''-'' @ m @ ''-'' @ d" "year_text y" "month_text m"
          "day_text d" "datetime_date (py_int y) (py_int m) (py_int d) = Inr dt"
        unfolding strptime_accepts_iff by blast
      with n show ?thesis by auto
    qed
  qed
  have d: "spec_yyyy_mm_dd due \<longrightarrow> strptime due \<noteq> Inl ValueError"
    using strptime_strict by blast
  have e: "\<forall>dt. strptime due = Inr dt \<and> length ttl \<le> 120 \<and> \<not> has_nul ttl \<and>
         length prio \<le> 20 \<and> \<not> has_nul prio \<and>
         uid \<in> set (map id_user (user_table db)) \<longrightarrow>
      create_task db uid ttl prio due =
        (db\<lparr>task_table := task_table db @
              [\<lparr>id_task = task_id_seq db, title = ttl, status = ''Pending'', priority = prio,
                due_date = dt, user_id = uid\<rparr>],
            task_id_seq := task_id_seq db + 1\<rparr>,
         Inr (Message ''Task created''))"
    by (simp add: create_task_def varchar_fits)
  from a b f c d e show ?thesis
    by (intro conjI)
qed

lemma strptime_lenient: "strptime ''2024-1-5'' = Inr \<lparr>year = 2024, month = 1, day = 5\<rparr>"
  by code_simp

lemma strptime_garbage: "strptime ''tomorrow'' = Inl ValueError"
  by code_simp

theorem create_task_outcome_witness:
  "strptime ''tomorrow'' = Inl ValueError \<and>
   create_task example_db 1 ''Call'' ''Low'' ''tomorrow'' = (example_db, Inl ValueError) \<and>
   spec_yyyy_mm_dd ''2024-07-01'' \<and>
   strptime ''2024-07-01'' = Inr \<lparr>year = 2024, month = 7, day = 1\<rparr> \<and>
   length ''Call'' \<le> 120 \<and> \<not> has_nul ''Call'' \<and> length ''Low'' \<le> 20 \<and> \<not> has_nul ''Low'' \<and>
   (1::int) \<in> set (map id_user (user_table example_db)) \<and>
   create_task example_db 1 ''Call'' ''Low'' ''2024-07-01'' =
     (example_db\<lparr>task_table := task_table example_db @
        [\<lparr>id_task = 4, title = ''Call'', status = ''Pending'', priority = ''Low'',
          due_date = \<lparr>year = 2024, month = 7, day = 1\<rparr>, user_id = 1\<rparr>],
        task_id_seq := 5\<rparr>,
      Inr (Message ''Task created'')) \<and>
   snd (create_task example_db 1 [CHR ''a'', CHR 0x00, CHR ''b''] ''Low'' ''2024-07-01'') =
     Inl ValueError"
proof -
  have strict: "spec_yyyy_mm_dd ''2024-07-01''"
    by code_simp
  show ?thesis
    using create_task_outcome [of example_db 1 "''Call''" "''Low''" "''tomorrow''"]
      create_task_outcome [of example_db 1 "''Call''" "''Low''" "''2024-07-01''"]
      create_task_outcome [of example_db 1 "[CHR ''a'', CHR 0x00, CHR ''b'']" "''Low''"
        "''2024-07-01''"]
      strptime_garbage strptime_example strict
    by (simp add: example_db_def has_nul_def)
qed

text \<open>
  C3 as stated fails in both directions: \<open>2024-1-5\<close> is not in the form \<open>YYYY-MM-DD\<close>, yet
  the task is created; and with a date in that form a title of 121 characters is
  refused with a \<open>DataError\<close> and a title with the character NUL with a \<open>ValueError\<close>, so
  no task is created.
\<close>

theorem create_task_lenient_date:
  "\<not> spec_yyyy_mm_dd ''2024-1-5'' \<and>
   create_task example_db 1 ''Call'' ''Low'' ''2024-1-5'' =
     (example_db\<lparr>task_table := task_table example_db @
        [\<lparr>id_task = 4, title = ''Call'', status = ''Pending'', priority = ''Low'',
          due_date = \<lparr>year = 2024, month = 1, day = 5\<rparr>, user_id = 1\<rparr>],
        task_id_seq := 5\<rparr>,
      Inr (Message ''Task created'')) \<and>
   spec_yyyy_mm_dd ''2024-07-01'' \<and>
   create_task example_db 1 (replicate 121 CHR ''x'') ''Low'' ''2024-07-01'' =
     (example_db, Inl DataError) \<and>
   create_task example_db 1 [CHR ''a'', CHR 0x00, CHR ''b''] ''Low'' ''2024-07-01'' =
     (example_db, Inl ValueError)"
proof -
  have "\<not> spec_yyyy_mm_dd ''2024-1-5''"
    by (simp add: spec_yyyy_mm_dd_def)
  moreover have "spec_yyyy_mm_dd ''2024-07-01''"
    by code_simp
  ultimately show ?thesis
    using strptime_lenient strptime_example
    by (simp add: create_task_def varchar_def example_db_def has_nul_def)
qed

end
